theory Spec2Isabelle
  imports Main
begin

section \<open>Data model\<close>

text \<open>
  The permission tags that \<^verbatim>\<open>user.controller.ts\<close> refers to through
  \<^verbatim>\<open>PermissionKeys\<close>.
\<close>

datatype PermissionKeys = UserBasic | UserManagement | AuthFeatures | GetBlogs

text \<open>
  Every rejection of a call is a value. The first seven are the taxonomy of the
  specification; \<open>TypeError\<close> is what JavaScript raises when a property of
  \<^verbatim>\<open>undefined\<close> is written, and \<open>HashFailure\<close> stands for any rejection of the
  promise returned by \<^verbatim>\<open>hashPassword\<close>.
\<close>

datatype error =
    ValidationError
  | InvalidCredentials
  | TokenInvalid
  | TokenExpired
  | MissingToken
  | InsufficientPermission
  | DuplicateEmail
  | TypeError
  | HashFailure

text \<open>
  \<^verbatim>\<open>Credentials\<close> is the pair of email and plaintext password. A \<^verbatim>\<open>User\<close> has these
  two properties and, besides, the numeric id that the repository assigns
  (\<^verbatim>\<open>undefined\<close>, here \<open>None\<close>, before that) and the list of permissions.
\<close>

record Credentials =
  email :: string
  password :: string

record User = Credentials +
  user_id :: "nat option"
  permissions :: "PermissionKeys list"

text \<open>\<^verbatim>\<open>_.pick(userData, ['email', 'password'])\<close>\<close>

definition pick_email_password :: "User \<Rightarrow> Credentials" where
  "pick_email_password userData = \<lparr>email = email userData, password = password userData\<rparr>"

text \<open>
  The properties of a \<^verbatim>\<open>UserProfile\<close> object are dynamically typed: the controller
  stores the value found under the \<^verbatim>\<open>securityId\<close> key under \<^verbatim>\<open>id\<close>, and the string
  \<^verbatim>\<open>""\<close> under \<^verbatim>\<open>securityId\<close>.
\<close>

datatype jsval = JUndefined | JNum nat | JStr string

record UserProfile =
  securityId :: jsval
  profile_id :: jsval
  profile_permissions :: "PermissionKeys list"

text \<open>
  Modelled from the spec: the token format (\<^verbatim>\<open>services/jwt-service\<close> is not part of
  the sources at hand). A token carries the claims and the two time stamps, and a
  signature over them. \<open>claims = None\<close> is a payload that is malformed or lacks a
  required claim field.
\<close>

record Payload =
  claims :: "UserProfile option"
  issuedAt :: nat
  expiresAt :: nat

record Token =
  payload :: Payload
  signature :: string

section \<open>The world a call runs in\<close>

text \<open>
  The controller talks to four collaborators. Each call of one appends an entry to
  \<open>calls\<close>, so that the order of the calls of a handler, and the absence of a call,
  can be read off the final state.
\<close>

datatype Call =
    CallValidateCredentials
  | CallHashPassword
  | CallCreate
  | CallVerifyCredentials
  | CallConvertToUserProfile
  | CallGenerateToken
  | CallOperation

record World =
  users :: "User list"
  nextId :: nat
  calls :: "Call list"

definition record_call :: "Call \<Rightarrow> World \<Rightarrow> World" where
  "record_call c w = w\<lparr>calls := calls w @ [c]\<rparr>"

text \<open>
  Modelled from the spec: emails are case-normalised (the model class and the
  repository are not part of the sources at hand); two emails are the same when their
  normal forms are. The normal form lowers the ASCII letters \<^verbatim>\<open>A\<close> to \<^verbatim>\<open>Z\<close>.
\<close>

definition lower_char :: "char \<Rightarrow> char" where
  "lower_char c =
     (let n = (of_char c :: nat) in if 65 \<le> n \<and> n \<le> 90 then char_of (n + 32) else c)"

text \<open>Modelled from the spec: the normal form of an email (see above).\<close>

definition normalize_email :: "string \<Rightarrow> string" where
  "normalize_email s = map lower_char s"

text \<open>Modelled from the spec: the comparison of emails behind the unique index and the lookup.\<close>

definition same_email :: "string \<Rightarrow> User \<Rightarrow> bool" where
  "same_email e r = (normalize_email (email r) = normalize_email e)"

text \<open>
  Modelled from the spec: \<^verbatim>\<open>UserRepository.create\<close> (the repository class is not part
  of the sources at hand). The store keys the rows by an id that it assigns and keeps
  a unique index on the email; a violation of the index is \<open>DuplicateEmail\<close>. The
  instance handed back is a copy of the stored row.
\<close>

definition create :: "User \<Rightarrow> World \<Rightarrow> (error + User) \<times> World" where
  "create userData w =
     (case find (same_email (email userData)) (users w) of
        Some _ \<Rightarrow> (Inl DuplicateEmail, w)
      | None \<Rightarrow>
          (let row = userData\<lparr>user_id := Some (nextId w)\<rparr>
           in (Inr row, w\<lparr>users := users w @ [row], nextId := Suc (nextId w)\<rparr>)))"

section \<open>The controller\<close>

text \<open>
  The services that the constructor of \<^verbatim>\<open>UserController\<close> receives by injection, and
  the imported \<^verbatim>\<open>validateCredentials\<close>. Their sources are not at hand, so the handlers
  are defined for any implementation of them. \<open>validateCredentials\<close> returns the error
  it throws, or \<open>None\<close>; \<open>verifyCredentials\<close> reads the rows of the repository.
\<close>

record UserController =
  validateCredentials :: "Credentials \<Rightarrow> error option"
  hashPassword :: "string \<Rightarrow> error + string"
  verifyCredentials :: "User list \<Rightarrow> Credentials \<Rightarrow> error + User"
  convertToUserProfile :: "User \<Rightarrow> UserProfile"
  generateToken :: "UserProfile \<Rightarrow> error + Token"

text \<open>
  \<^verbatim>\<open>signup\<close>, statement by statement: validate the picked credentials, overwrite the
  permissions, replace the password by its hash, create the row, blank the password
  of the instance that \<^verbatim>\<open>create\<close> returned, return it.
\<close>

definition signup :: "UserController \<Rightarrow> User \<Rightarrow> World \<Rightarrow> (error + User) \<times> World" where
  "signup ctl userData w =
     (let w1 = record_call CallValidateCredentials w in
      case validateCredentials ctl (pick_email_password userData) of
        Some e \<Rightarrow> (Inl e, w1)
      | None \<Rightarrow>
          (let userData1 = userData\<lparr>permissions := [AuthFeatures, GetBlogs]\<rparr>;
               w2 = record_call CallHashPassword w1 in
           case hashPassword ctl (password userData1) of
             Inl e \<Rightarrow> (Inl e, w2)
           | Inr hashed \<Rightarrow>
               (let userData2 = userData1\<lparr>password := hashed\<rparr> in
                case create userData2 (record_call CallCreate w2) of
                  (Inl e, w3) \<Rightarrow> (Inl e, w3)
                | (Inr newUser, w3) \<Rightarrow> (Inr (newUser\<lparr>password := []\<rparr>), w3))))"

text \<open>
  \<^verbatim>\<open>login\<close>: verify the credentials, convert the record, overwrite the permissions of
  the profile with those of the record, generate the token.
\<close>

definition login :: "UserController \<Rightarrow> Credentials \<Rightarrow> World \<Rightarrow> (error + Token) \<times> World" where
  "login ctl credentials w =
     (let w1 = record_call CallVerifyCredentials w in
      case verifyCredentials ctl (users w) credentials of
        Inl e \<Rightarrow> (Inl e, w1)
      | Inr user \<Rightarrow>
          (let userProfile = convertToUserProfile ctl user;
               w2 = record_call CallConvertToUserProfile w1;
               userProfile1 = userProfile\<lparr>profile_permissions := permissions user\<rparr>;
               w3 = record_call CallGenerateToken w2 in
           case generateToken ctl userProfile1 of
             Inl e \<Rightarrow> (Inl e, w3)
           | Inr jwt \<Rightarrow> (Inr jwt, w3)))"

text \<open>
  \<^verbatim>\<open>me\<close> receives a reference to the \<^verbatim>\<open>UserProfile\<close> object that authentication bound
  as the current user, and assigns to two of its properties. Objects live in a store,
  so that the assignments are seen through every reference to the object. Writing a
  property of a missing object is the \<^verbatim>\<open>TypeError\<close> of JavaScript.
\<close>

type_synonym ref = nat

type_synonym heap = "ref \<Rightarrow> UserProfile option"

definition me :: "ref \<Rightarrow> heap \<Rightarrow> (error + ref) \<times> heap" where
  "me currentUser h =
     (case h currentUser of
        None \<Rightarrow> (Inl TypeError, h)
      | Some p \<Rightarrow>
          (let p1 = p\<lparr>profile_id := securityId p\<rparr>;
               p2 = p1\<lparr>securityId := JStr []\<rparr>
           in (Inr currentUser, h(currentUser \<mapsto> p2))))"

text \<open>
  The guarded operations and the permissions that the \<^verbatim>\<open>@authenticate\<close> decorator of
  each declares under \<^verbatim>\<open>options.required\<close>.
\<close>

datatype Operation = Count | Find | FindById | ReplaceById | DeleteById | Me

fun required :: "Operation \<Rightarrow> PermissionKeys list" where
  "required Count = [UserBasic]"
| "required Find = [UserManagement]"
| "required FindById = [UserManagement]"
| "required ReplaceById = [UserManagement]"
| "required DeleteById = [UserManagement]"
| "required Me = [AuthFeatures]"

section \<open>The services, from their contracts\<close>

text \<open>
  Modelled from the spec: \<^verbatim>\<open>UserService.verifyCredentials\<close> (\<^verbatim>\<open>services/user.service\<close>
  is not part of the sources at hand). It looks the record up by normalised email
  and fails with \<open>InvalidCredentials\<close> if there is none or if the hasher's
  verification of the password against the stored hash is false. The hasher's
  verification is the parameter \<open>comparePassword\<close>.
\<close>

definition UserService_verifyCredentials ::
  "(string \<Rightarrow> string \<Rightarrow> bool) \<Rightarrow> User list \<Rightarrow> Credentials \<Rightarrow> error + User" where
  "UserService_verifyCredentials comparePassword rows creds =
     (case find (same_email (email creds)) rows of
        None \<Rightarrow> Inl InvalidCredentials
      | Some stored \<Rightarrow>
          if comparePassword (password creds) (password stored) then Inr stored
          else Inl InvalidCredentials)"

text \<open>
  Modelled from the spec: \<^verbatim>\<open>UserService.convertToUserProfile\<close> (same missing file):
  the id goes to the subject identifier, which is carried under the security-id key,
  and the permissions go to the permission set. The business id is not set.
\<close>

text \<open>
  Modelled from the spec: the subject identifier that stands for an id; a record that
  the store has not yet given an id has none.
\<close>

definition subject_of :: "nat option \<Rightarrow> jsval" where
  "subject_of i = (case i of None \<Rightarrow> JUndefined | Some n \<Rightarrow> JNum n)"

definition UserService_convertToUserProfile :: "User \<Rightarrow> UserProfile" where
  "UserService_convertToUserProfile stored =
     \<lparr>securityId = subject_of (user_id stored),
      profile_id = JUndefined,
      profile_permissions = permissions stored\<rparr>"

text \<open>
  Modelled from the spec: \<^verbatim>\<open>TokenService.issue\<close> and \<^verbatim>\<open>TokenService.verify\<close>
  (\<^verbatim>\<open>services/jwt-service\<close> is not part of the sources at hand). \<open>issue\<close> puts the
  claims, the time of issue and the time of expiry into the payload and signs it
  with the secret. \<open>verify\<close> fails with \<open>TokenInvalid\<close> when the signature does not
  match or the payload has no claims, with \<open>TokenExpired\<close> when the current time is
  after the time of expiry, and returns the claims otherwise. The signing algorithm
  is the parameter \<open>sign\<close>; times and durations are in seconds.
\<close>

definition TokenService_issue ::
  "(string \<Rightarrow> Payload \<Rightarrow> string) \<Rightarrow> string \<Rightarrow> nat \<Rightarrow> UserProfile \<Rightarrow> nat \<Rightarrow> Token" where
  "TokenService_issue sign secret now c ttl =
     (let pl = \<lparr>claims = Some c, issuedAt = now, expiresAt = now + ttl\<rparr>
      in \<lparr>payload = pl, signature = sign secret pl\<rparr>)"

text \<open>Modelled from the spec: \<^verbatim>\<open>TokenService.verify\<close>, as described above.\<close>

definition TokenService_verify ::
  "(string \<Rightarrow> Payload \<Rightarrow> string) \<Rightarrow> string \<Rightarrow> nat \<Rightarrow> Token \<Rightarrow> error + UserProfile" where
  "TokenService_verify sign secret now token =
     (if signature token \<noteq> sign secret (payload token) then Inl TokenInvalid
      else case claims (payload token) of
             None \<Rightarrow> Inl TokenInvalid
           | Some c \<Rightarrow>
               if expiresAt (payload token) < now then Inl TokenExpired else Inr c)"

text \<open>
  Modelled from the spec: the wiring of \<^verbatim>\<open>login\<close>. The controller gets the two
  services above for \<^verbatim>\<open>verifyCredentials\<close> and \<^verbatim>\<open>generateToken\<close>; the token service
  reads the clock at \<open>now\<close> and issues tokens that live for \<open>ttl\<close>.
\<close>

definition with_services ::
  "(string \<Rightarrow> string \<Rightarrow> bool) \<Rightarrow> (string \<Rightarrow> Payload \<Rightarrow> string) \<Rightarrow> string \<Rightarrow> nat \<Rightarrow> nat \<Rightarrow>
   UserController \<Rightarrow> UserController" where
  "with_services comparePassword sign secret now ttl ctl =
     ctl\<lparr>verifyCredentials := UserService_verifyCredentials comparePassword,
         generateToken := (\<lambda>c. Inr (TokenService_issue sign secret now c ttl))\<rparr>"

text \<open>
  Modelled from the spec: the \<^verbatim>\<open>AuthorizationGuard\<close> (the authentication strategy
  behind \<^verbatim>\<open>@authenticate\<close> is not part of the sources at hand), as the state machine
  of one protected call. \<open>PermissionChecked\<close> holds the intersection of the required
  permissions with those of the claims.
\<close>

datatype GuardState =
    Unauthenticated "Token option"
  | TokenPresented Token
  | TokenVerified UserProfile
  | PermissionChecked UserProfile "PermissionKeys list"
  | Allowed UserProfile
  | Denied error

text \<open>
  Modelled from the spec: the transitions of the guard. No token is \<open>MissingToken\<close>;
  a token that does not verify is denied with the error of the verification; the
  call is allowed iff the intersection equals the required set, and denied with
  \<open>InsufficientPermission\<close> otherwise. \<open>Allowed\<close> and \<open>Denied\<close> are terminal.
\<close>

fun guard_step ::
  "(Token \<Rightarrow> error + UserProfile) \<Rightarrow> PermissionKeys list \<Rightarrow> GuardState \<Rightarrow> GuardState" where
  "guard_step vfy req (Unauthenticated None) = Denied MissingToken"
| "guard_step vfy req (Unauthenticated (Some t)) = TokenPresented t"
| "guard_step vfy req (TokenPresented t) =
     (case vfy t of Inl e \<Rightarrow> Denied e | Inr c \<Rightarrow> TokenVerified c)"
| "guard_step vfy req (TokenVerified c) =
     PermissionChecked c (filter (\<lambda>p. p \<in> set (profile_permissions c)) req)"
| "guard_step vfy req (PermissionChecked c held) =
     (if set held = set req then Allowed c else Denied InsufficientPermission)"
| "guard_step vfy req (Allowed c) = Allowed c"
| "guard_step vfy req (Denied e) = Denied e"

text \<open>The number of transitions that remain before a terminal state.\<close>

fun guard_rank :: "GuardState \<Rightarrow> nat" where
  "guard_rank (Unauthenticated _) = 4"
| "guard_rank (TokenPresented _) = 3"
| "guard_rank (TokenVerified _) = 2"
| "guard_rank (PermissionChecked _ _) = 1"
| "guard_rank (Allowed _) = 0"
| "guard_rank (Denied _) = 0"

text \<open>
  Modelled from the spec: one protected call is the run of the machine from its
  state to a terminal state, which gives the claims or the error.
\<close>

function guard_run ::
  "(Token \<Rightarrow> error + UserProfile) \<Rightarrow> PermissionKeys list \<Rightarrow> GuardState \<Rightarrow> error + UserProfile" where
  "guard_run vfy req (Allowed c) = Inr c"
| "guard_run vfy req (Denied e) = Inl e"
| "guard_run vfy req (Unauthenticated None) =
     guard_run vfy req (guard_step vfy req (Unauthenticated None))"
| "guard_run vfy req (Unauthenticated (Some t)) =
     guard_run vfy req (guard_step vfy req (Unauthenticated (Some t)))"
| "guard_run vfy req (TokenPresented t) = guard_run vfy req (guard_step vfy req (TokenPresented t))"
| "guard_run vfy req (TokenVerified c) = guard_run vfy req (guard_step vfy req (TokenVerified c))"
| "guard_run vfy req (PermissionChecked c i) =
     guard_run vfy req (guard_step vfy req (PermissionChecked c i))"
  by pat_completeness auto
termination
  by (relation "measure (\<lambda>(vfy, req, s). guard_rank s)")
     (auto split: option.splits sum.splits)

text \<open>
  Modelled from the spec: the guard's decision for a call, from \<open>Unauthenticated\<close>
  with the bearer token that the caller supplied, if any.
\<close>

definition AuthorizationGuard ::
  "(Token \<Rightarrow> error + UserProfile) \<Rightarrow> PermissionKeys list \<Rightarrow> Token option \<Rightarrow> error + UserProfile" where
  "AuthorizationGuard vfy req bearer = guard_run vfy req (Unauthenticated bearer)"

text \<open>
  Modelled from the spec: a protected operation. The guard runs with the permissions
  that the operation declares; in the terminal state \<open>Allowed\<close> the wrapped body is
  invoked on the claims, in \<open>Denied\<close> the call is rejected with the error.
\<close>

definition protected_call ::
  "(Token \<Rightarrow> error + UserProfile) \<Rightarrow> Operation \<Rightarrow> (UserProfile \<Rightarrow> World \<Rightarrow> 'r \<times> World) \<Rightarrow>
   Token option \<Rightarrow> World \<Rightarrow> (error + 'r) \<times> World" where
  "protected_call vfy opn body bearer w =
     (case AuthorizationGuard vfy (required opn) bearer of
        Inl e \<Rightarrow> (Inl e, w)
      | Inr c \<Rightarrow> (case body c (record_call CallOperation w) of (r, w') \<Rightarrow> (Inr r, w')))"

text \<open>The body of \<^verbatim>\<open>find\<close> without a filter: all rows of the repository.\<close>

definition find_all :: "UserProfile \<Rightarrow> World \<Rightarrow> User list \<times> World" where
  "find_all c w = (users w, w)"

section \<open>Instances for evaluation\<close>

text \<open>
  A validator with the one rule that the password has at least eight characters, a
  hasher and a signing function that are not cryptographic, and a controller built
  from them.
\<close>

definition min_length_validator :: "Credentials \<Rightarrow> error option" where
  "min_length_validator c = (if length (password c) < 8 then Some ValidationError else None)"

definition example_hash :: "string \<Rightarrow> error + string" where
  "example_hash p = (if p = [] then Inl ValidationError else Inr (''#'' @ rev p))"

definition example_compare :: "string \<Rightarrow> string \<Rightarrow> bool" where
  "example_compare p h = (p \<noteq> [] \<and> h = ''#'' @ rev p)"

definition example_sign :: "string \<Rightarrow> Payload \<Rightarrow> string" where
  "example_sign secret pl = secret @ replicate (expiresAt pl) (CHR ''.'')"

definition example_controller :: UserController where
  "example_controller =
     \<lparr>validateCredentials = min_length_validator,
      hashPassword = example_hash,
      verifyCredentials = UserService_verifyCredentials example_compare,
      convertToUserProfile = UserService_convertToUserProfile,
      generateToken = (\<lambda>c. Inr (TokenService_issue example_sign ''key'' 100 c 60))\<rparr>"

definition empty_world :: World where
  "empty_world = \<lparr>users = [], nextId = 1, calls = []\<rparr>"

definition alice :: User where
  "alice = \<lparr>email = ''a@b.com'', password = ''#ssaP!gn0rtS'',
            user_id = Some 1, permissions = [AuthFeatures, GetBlogs]\<rparr>"

definition alice_world :: World where
  "alice_world = \<lparr>users = [alice], nextId = 2, calls = []\<rparr>"

definition alice_profile :: UserProfile where
  "alice_profile =
     \<lparr>securityId = JNum 1, profile_id = JUndefined,
      profile_permissions = [AuthFeatures, GetBlogs]\<rparr>"

definition weak_signup :: User where
  "weak_signup = \<lparr>email = ''a@b.com'', password = ''abc'', user_id = None, permissions = []\<rparr>"

definition escalating_signup :: User where
  "escalating_signup =
     \<lparr>email = ''a@b.com'', password = ''Str0ng!Pass'',
      user_id = None, permissions = [UserManagement, UserBasic]\<rparr>"

definition alice_login :: Credentials where
  "alice_login = \<lparr>email = ''A@B.com'', password = ''Str0ng!Pass''\<rparr>"

definition wrong_password_login :: Credentials where
  "wrong_password_login = \<lparr>email = ''a@b.com'', password = ''Str0ng!Pas''\<rparr>"

definition unknown_email_login :: Credentials where
  "unknown_email_login = \<lparr>email = ''c@b.com'', password = ''Str0ng!Pass''\<rparr>"

definition alice_token :: Token where
  "alice_token = TokenService_issue example_sign ''key'' 100 alice_profile 60"

definition alice_heap :: heap where
  "alice_heap = Map.empty(0 \<mapsto> alice_profile)"

section \<open>Evaluation of the instances\<close>

lemma same_email_eval:
  "same_email ''A@B.com'' alice" "same_email ''a@b.com'' alice" "\<not> same_email ''c@b.com'' alice"
  by code_simp+

lemma find_alice_eval:
  "find (same_email (email alice_login)) (users alice_world) = Some alice"
  using same_email_eval by (simp add: alice_world_def alice_login_def)

lemma find_wrong_password_eval:
  "find (same_email (email wrong_password_login)) (users alice_world) = Some alice"
  using same_email_eval by (simp add: alice_world_def wrong_password_login_def)

lemma find_unknown_email_eval:
  "find (same_email (email unknown_email_login)) (users alice_world) = None"
  using same_email_eval by (simp add: alice_world_def unknown_email_login_def)

lemma compare_alice_eval:
  "example_compare (password alice_login) (password alice)"
  by (simp add: example_compare_def alice_login_def alice_def)

lemma compare_wrong_password_eval:
  "\<not> example_compare (password wrong_password_login) (password alice)"
  by (simp add: example_compare_def wrong_password_login_def alice_def)

lemma escalating_signup_eval:
  "signup example_controller escalating_signup empty_world =
     (Inr \<lparr>email = ''a@b.com'', password = [], user_id = Some 1,
           permissions = [AuthFeatures, GetBlogs]\<rparr>,
      \<lparr>users = [\<lparr>email = ''a@b.com'', password = ''#ssaP!gn0rtS'', user_id = Some 1,
                 permissions = [AuthFeatures, GetBlogs]\<rparr>],
       nextId = 2,
       calls = [CallValidateCredentials, CallHashPassword, CallCreate]\<rparr>)"
  by (simp add: signup_def create_def record_call_def pick_email_password_def Let_def
      example_controller_def min_length_validator_def example_hash_def empty_world_def
      escalating_signup_def)

lemma wrong_password_eval:
  "verifyCredentials example_controller (users alice_world) wrong_password_login =
     Inl InvalidCredentials"
  using find_wrong_password_eval compare_wrong_password_eval
  by (simp add: example_controller_def UserService_verifyCredentials_def)

lemma alice_login_eval:
  "login example_controller alice_login alice_world =
     (Inr alice_token,
      \<lparr>users = [alice], nextId = 2,
       calls = [CallVerifyCredentials, CallConvertToUserProfile, CallGenerateToken]\<rparr>)"
  using find_alice_eval compare_alice_eval
  by (simp add: login_def example_controller_def UserService_verifyCredentials_def
      record_call_def UserService_convertToUserProfile_def subject_of_def alice_token_def)
     (simp add: alice_def alice_profile_def alice_world_def)

lemma alice_token_eval:
  "TokenService_verify example_sign ''key'' 120 alice_token = Inr alice_profile"
  by (simp add: TokenService_verify_def TokenService_issue_def alice_token_def Let_def)

section \<open>The guard\<close>

lemma guard_run_verified:
  "guard_run vfy req (TokenVerified c) =
     (if set req \<subseteq> set (profile_permissions c) then Inr c else Inl InsufficientPermission)"
  by (auto simp add: Let_def)

lemma guard_run_presented:
  "vfy tok = Inr c \<Longrightarrow>
     guard_run vfy req (Unauthenticated (Some tok)) = guard_run vfy req (TokenVerified c)"
  by simp

text \<open>
  C1. Let the token of a protected call be verified, with claims \<open>c\<close>. The guard
  allows the call if and only if the required permissions are a subset of the
  permissions of \<open>c\<close>, for every required set; when they are not, it denies with
  \<open>InsufficientPermission\<close>. A protected operation whose declared permissions are
  held runs its body on the claims; one whose declared permissions are not all held
  is rejected with \<open>InsufficientPermission\<close> and leaves the world, the record of
  invocations included, as it was, whatever the body is.
\<close>

theorem guard_allows_iff_subset:
  assumes "vfy tok = Inr c"
  shows "(AuthorizationGuard vfy req (Some tok) = Inr c) =
           (set req \<subseteq> set (profile_permissions c)) \<and>
         (\<not> set req \<subseteq> set (profile_permissions c) \<longrightarrow>
            AuthorizationGuard vfy req (Some tok) = Inl InsufficientPermission) \<and>
         (set (required opn) \<subseteq> set (profile_permissions c) \<longrightarrow>
            protected_call vfy opn body (Some tok) w =
              (Inr (fst (body c (record_call CallOperation w))),
               snd (body c (record_call CallOperation w)))) \<and>
         (\<not> set (required opn) \<subseteq> set (profile_permissions c) \<longrightarrow>
            protected_call vfy opn body (Some tok) w = (Inl InsufficientPermission, w))"
proof -
  have g: "AuthorizationGuard vfy r (Some tok) =
        (if set r \<subseteq> set (profile_permissions c) then Inr c else Inl InsufficientPermission)" for r
    unfolding AuthorizationGuard_def guard_run_presented[of vfy tok c, OF assms]
    by (rule guard_run_verified)
  show ?thesis
    by (simp add: g protected_call_def split: prod.splits)
qed

theorem guard_allows_iff_subset_witness:
  "TokenService_verify example_sign ''key'' 120 alice_token = Inr alice_profile \<and>
   set (required Me) \<subseteq> set (profile_permissions alice_profile) \<and>
   \<not> set (required Find) \<subseteq> set (profile_permissions alice_profile) \<and>
   AuthorizationGuard (TokenService_verify example_sign ''key'' 120) (required Me)
     (Some alice_token) = Inr alice_profile \<and>
   AuthorizationGuard (TokenService_verify example_sign ''key'' 120) (required Find)
     (Some alice_token) = Inl InsufficientPermission \<and>
   protected_call (TokenService_verify example_sign ''key'' 120) Me find_all
     (Some alice_token) alice_world =
     (Inr [alice], \<lparr>users = [alice], nextId = 2, calls = [CallOperation]\<rparr>) \<and>
   protected_call (TokenService_verify example_sign ''key'' 120) Find find_all
     (Some alice_token) alice_world =
     (Inl InsufficientPermission, \<lparr>users = [alice], nextId = 2, calls = []\<rparr>)"
proof -
  have h: "TokenService_verify example_sign ''key'' 120 alice_token = Inr alice_profile"
    by (rule alice_token_eval)
  have p: "set (required Me) \<subseteq> set (profile_permissions alice_profile)"
    by (simp add: alice_profile_def)
  have n: "\<not> set (required Find) \<subseteq> set (profile_permissions alice_profile)"
    by (simp add: alice_profile_def)
  from guard_allows_iff_subset
         [where vfy = "TokenService_verify example_sign ''key'' 120" and tok = alice_token
            and c = alice_profile and req = "required Me" and opn = Me and body = find_all
            and w = alice_world,
          OF h] p
  have a: "AuthorizationGuard (TokenService_verify example_sign ''key'' 120) (required Me)
             (Some alice_token) = Inr alice_profile"
    and b: "protected_call (TokenService_verify example_sign ''key'' 120) Me find_all
              (Some alice_token) alice_world =
            (Inr [alice], \<lparr>users = [alice], nextId = 2, calls = [CallOperation]\<rparr>)"
    by (simp_all add: find_all_def record_call_def alice_world_def)
  from guard_allows_iff_subset
         [where vfy = "TokenService_verify example_sign ''key'' 120" and tok = alice_token
            and c = alice_profile and req = "required Find" and opn = Find
            and body = find_all and w = alice_world,
          OF h] n
  have c: "AuthorizationGuard (TokenService_verify example_sign ''key'' 120) (required Find)
             (Some alice_token) = Inl InsufficientPermission"
    and d: "protected_call (TokenService_verify example_sign ''key'' 120) Find find_all
              (Some alice_token) alice_world =
            (Inl InsufficientPermission, \<lparr>users = [alice], nextId = 2, calls = []\<rparr>)"
    by (simp_all add: alice_world_def)
  from h p n a b c d show ?thesis by blast
qed

section \<open>Signup\<close>

text \<open>
  C3. The outcome of a signup does not depend on the permissions in the payload.
  When a signup succeeds, the permissions of the returned record are
  \<open>AuthFeatures\<close> and \<open>GetBlogs\<close> and nothing else, and so are those of the row that
  the signup added to the store.
\<close>

theorem signup_default_permissions:
  "signup ctl (userData\<lparr>permissions := ps\<rparr>) w = signup ctl userData w \<and>
   (signup ctl userData w = (Inr newUser, w') \<longrightarrow>
      permissions newUser = [AuthFeatures, GetBlogs] \<and>
      set (permissions newUser) = {AuthFeatures, GetBlogs} \<and>
      (\<exists>row. users w' = users w @ [row] \<and> user_id row = user_id newUser \<and>
             permissions row = [AuthFeatures, GetBlogs]))"
  by (auto simp add: signup_def record_call_def create_def Let_def pick_email_password_def
      split: option.splits sum.splits)

theorem signup_default_permissions_witness:
  "signup example_controller escalating_signup empty_world =
     (Inr \<lparr>email = ''a@b.com'', password = [], user_id = Some 1,
           permissions = [AuthFeatures, GetBlogs]\<rparr>,
      \<lparr>users = [alice], nextId = 2,
       calls = [CallValidateCredentials, CallHashPassword, CallCreate]\<rparr>) \<and>
   set (permissions \<lparr>email = ''a@b.com'', password = [], user_id = Some 1,
           permissions = [AuthFeatures, GetBlogs]\<rparr>) = {AuthFeatures, GetBlogs}"
proof -
  have h: "signup example_controller escalating_signup empty_world =
     (Inr \<lparr>email = ''a@b.com'', password = [], user_id = Some 1,
           permissions = [AuthFeatures, GetBlogs]\<rparr>,
      \<lparr>users = [alice], nextId = 2,
       calls = [CallValidateCredentials, CallHashPassword, CallCreate]\<rparr>)"
    by (simp add: escalating_signup_eval alice_def)
  from signup_default_permissions
         [where ctl = example_controller and userData = escalating_signup
            and w = empty_world] h
  show ?thesis by blast
qed

text \<open>
  C4. A signup calls the validator first, then the hasher, then the store, and stops
  at the first of them that fails. When the validator rejects the credentials,
  the signup fails with the validator's error after that one call: the hasher and the
  store are not called and the store is as it was. On every error of a signup the
  rows of the store are as they were.
\<close>

theorem signup_validation_first:
  "(\<exists>k. 1 \<le> k \<and>
        calls (snd (signup ctl userData w)) =
          calls w @ take k [CallValidateCredentials, CallHashPassword, CallCreate]) \<and>
   (validateCredentials ctl (pick_email_password userData) = Some e \<longrightarrow>
      signup ctl userData w = (Inl e, w\<lparr>calls := calls w @ [CallValidateCredentials]\<rparr>)) \<and>
   (fst (signup ctl userData w) = Inl e \<longrightarrow>
      users (snd (signup ctl userData w)) = users w)"
proof (intro conjI)
  show "\<exists>k. 1 \<le> k \<and>
        calls (snd (signup ctl userData w)) =
          calls w @ take k [CallValidateCredentials, CallHashPassword, CallCreate]"
  proof (cases "validateCredentials ctl (pick_email_password userData)")
    case (Some rejected)
    then have "calls (snd (signup ctl userData w)) =
        calls w @ take 1 [CallValidateCredentials, CallHashPassword, CallCreate]"
      by (simp add: signup_def record_call_def)
    then show ?thesis by (intro exI[of _ 1]) simp
  next
    case None
    show ?thesis
    proof (cases "hashPassword ctl (password userData)")
      case (Inl failed)
      with None have "calls (snd (signup ctl userData w)) =
          calls w @ take 2 [CallValidateCredentials, CallHashPassword, CallCreate]"
        by (simp add: signup_def record_call_def)
      then show ?thesis by (intro exI[of _ 2]) simp
    next
      case (Inr hashed)
      with None have "calls (snd (signup ctl userData w)) =
          calls w @ take 3 [CallValidateCredentials, CallHashPassword, CallCreate]"
        by (simp add: signup_def record_call_def create_def Let_def split: option.splits)
      then show ?thesis by (intro exI[of _ 3]) simp
    qed
  qed
next
  show "validateCredentials ctl (pick_email_password userData) = Some e \<longrightarrow>
      signup ctl userData w = (Inl e, w\<lparr>calls := calls w @ [CallValidateCredentials]\<rparr>)"
    by (simp add: signup_def record_call_def)
next
  show "fst (signup ctl userData w) = Inl e \<longrightarrow>
      users (snd (signup ctl userData w)) = users w"
    by (simp add: signup_def record_call_def create_def Let_def
        split: option.splits sum.splits)
qed

theorem signup_validation_first_witness:
  "validateCredentials example_controller (pick_email_password weak_signup) =
     Some ValidationError \<and>
   signup example_controller weak_signup empty_world =
     (Inl ValidationError, \<lparr>users = [], nextId = 1, calls = [CallValidateCredentials]\<rparr>) \<and>
   users (snd (signup example_controller weak_signup empty_world)) = users empty_world"
proof -
  have h: "validateCredentials example_controller (pick_email_password weak_signup) =
             Some ValidationError"
    by (simp add: example_controller_def min_length_validator_def weak_signup_def
        pick_email_password_def)
  from signup_validation_first
         [where ctl = example_controller and userData = weak_signup and w = empty_world
            and e = ValidationError] h
  have a: "signup example_controller weak_signup empty_world =
     (Inl ValidationError, \<lparr>users = [], nextId = 1, calls = [CallValidateCredentials]\<rparr>)"
    by (simp add: empty_world_def)
  then have f: "fst (signup example_controller weak_signup empty_world) = Inl ValidationError"
    by simp
  from signup_validation_first
         [where ctl = example_controller and userData = weak_signup and w = empty_world
            and e = ValidationError] f
  have "users (snd (signup example_controller weak_signup empty_world)) = users empty_world"
    by blast
  with h a show ?thesis by blast
qed

text \<open>
  C7. When a signup succeeds, the password of the returned record is the empty
  string, while the row that the signup added to the store holds the hash of the
  submitted password.
\<close>

theorem signup_password_blank:
  "signup ctl userData w = (Inr newUser, w') \<Longrightarrow>
     password newUser = [] \<and>
     (\<exists>row. users w' = users w @ [row] \<and> user_id row = user_id newUser \<and>
            hashPassword ctl (password userData) = Inr (password row))"
  by (auto simp add: signup_def record_call_def create_def Let_def
      split: option.splits sum.splits)

theorem signup_password_blank_witness:
  "signup example_controller escalating_signup empty_world =
     (Inr (alice\<lparr>password := []\<rparr>),
      \<lparr>users = [alice], nextId = 2,
       calls = [CallValidateCredentials, CallHashPassword, CallCreate]\<rparr>) \<and>
   password (alice\<lparr>password := []\<rparr>) = []"
proof -
  have h: "signup example_controller escalating_signup empty_world =
     (Inr (alice\<lparr>password := []\<rparr>),
      \<lparr>users = [alice], nextId = 2,
       calls = [CallValidateCredentials, CallHashPassword, CallCreate]\<rparr>)"
    by (simp add: escalating_signup_eval alice_def)
  from signup_password_blank [OF h] h show ?thesis by blast
qed

section \<open>Tokens and login\<close>

text \<open>
  C5. A token issued at time \<open>now\<close> for the claims \<open>c\<close> with time to live \<open>ttl\<close>
  verifies, at every time \<open>t\<close> before \<open>now + ttl\<close>, to exactly \<open>c\<close>.
\<close>

theorem issue_verify_roundtrip:
  "t < now + ttl \<Longrightarrow>
     TokenService_verify sign secret t (TokenService_issue sign secret now c ttl) = Inr c"
  by (simp add: TokenService_verify_def TokenService_issue_def Let_def)

theorem issue_verify_roundtrip_witness:
  "(159::nat) < 100 + 60 \<and>
   TokenService_verify example_sign ''key'' 159
     (TokenService_issue example_sign ''key'' 100 alice_profile 60) = Inr alice_profile"
proof -
  have h: "(159::nat) < 100 + 60" by simp
  from issue_verify_roundtrip
         [OF h, where sign = example_sign and secret = "''key''" and c = alice_profile] h
  show ?thesis by simp
qed

text \<open>
  C2. Let the store hold the record \<open>stored\<close> under the email of the credentials, and
  let the password of the credentials verify against its hash. Then the login
  succeeds and leaves the store as it was, and the claims of the returned token,
  as the payload carries them and as verification returns them until the token
  expires, have exactly the permissions of \<open>stored\<close>; this holds for every
  implementation of \<^verbatim>\<open>convertToUserProfile\<close>.
\<close>

theorem login_token_permissions:
  assumes "find (same_email (email credentials)) (users w) = Some stored"
      and "comparePassword (password credentials) (password stored)"
      and "t \<le> now + ttl"
  shows "\<exists>jwt w' c.
           login (with_services comparePassword sign secret now ttl ctl) credentials w =
             (Inr jwt, w') \<and>
           users w' = users w \<and>
           claims (payload jwt) = Some c \<and>
           TokenService_verify sign secret t jwt = Inr c \<and>
           profile_permissions c = permissions stored"
  using assms
  by (simp add: login_def with_services_def UserService_verifyCredentials_def record_call_def
      TokenService_verify_def TokenService_issue_def Let_def)

theorem login_token_permissions_witness:
  "find (same_email (email alice_login)) (users alice_world) = Some alice \<and>
   example_compare (password alice_login) (password alice) \<and>
   (\<exists>jwt w' c.
      login (with_services example_compare example_sign ''key'' 100 60 example_controller)
        alice_login alice_world = (Inr jwt, w') \<and>
      TokenService_verify example_sign ''key'' 160 jwt = Inr c \<and>
      profile_permissions c = [AuthFeatures, GetBlogs])"
proof -
  have h1: "find (same_email (email alice_login)) (users alice_world) = Some alice"
    by (rule find_alice_eval)
  have h2: "example_compare (password alice_login) (password alice)"
    by (rule compare_alice_eval)
  have h3: "(160::nat) \<le> 100 + 60" by simp
  from login_token_permissions
         [where comparePassword = example_compare and credentials = alice_login
            and w = alice_world and stored = alice and t = 160 and now = 100 and ttl = 60
            and sign = example_sign and secret = "''key''" and ctl = example_controller,
          OF h1 h2 h3]
  have "\<exists>jwt w' c.
      login (with_services example_compare example_sign ''key'' 100 60 example_controller)
        alice_login alice_world = (Inr jwt, w') \<and>
      TokenService_verify example_sign ''key'' 160 jwt = Inr c \<and>
      profile_permissions c = permissions alice"
    by blast
  then show ?thesis using h1 h2 by (simp add: alice_def)
qed

text \<open>
  C6. A login with an email that the store does not hold, and a login with an email
  that it holds and a password that does not verify, both fail with
  \<open>InvalidCredentials\<close>; the two calls have the same result and leave the same state.
\<close>

theorem login_failures_indistinguishable:
  assumes "find (same_email (email absent)) (users w) = None"
      and "find (same_email (email wrong)) (users w) = Some stored"
      and "\<not> comparePassword (password wrong) (password stored)"
  shows "login (with_services comparePassword sign secret now ttl ctl) absent w =
           (Inl InvalidCredentials, w\<lparr>calls := calls w @ [CallVerifyCredentials]\<rparr>) \<and>
         login (with_services comparePassword sign secret now ttl ctl) wrong w =
           login (with_services comparePassword sign secret now ttl ctl) absent w"
  using assms
  by (simp add: login_def with_services_def UserService_verifyCredentials_def record_call_def
      Let_def)

theorem login_failures_indistinguishable_witness:
  "find (same_email (email unknown_email_login)) (users alice_world) = None \<and>
   find (same_email (email wrong_password_login)) (users alice_world) = Some alice \<and>
   \<not> example_compare (password wrong_password_login) (password alice) \<and>
   login (with_services example_compare example_sign ''key'' 100 60 example_controller)
     unknown_email_login alice_world =
     (Inl InvalidCredentials, \<lparr>users = [alice], nextId = 2, calls = [CallVerifyCredentials]\<rparr>) \<and>
   login (with_services example_compare example_sign ''key'' 100 60 example_controller)
     wrong_password_login alice_world =
     (Inl InvalidCredentials, \<lparr>users = [alice], nextId = 2, calls = [CallVerifyCredentials]\<rparr>)"
proof -
  have h1: "find (same_email (email unknown_email_login)) (users alice_world) = None"
    by (rule find_unknown_email_eval)
  have h2: "find (same_email (email wrong_password_login)) (users alice_world) = Some alice"
    by (rule find_wrong_password_eval)
  have h3: "\<not> example_compare (password wrong_password_login) (password alice)"
    by (rule compare_wrong_password_eval)
  from login_failures_indistinguishable
         [where comparePassword = example_compare and absent = unknown_email_login
            and wrong = wrong_password_login and w = alice_world and stored = alice
            and sign = example_sign and secret = "''key''" and now = 100 and ttl = 60
            and ctl = example_controller,
          OF h1 h2 h3]
  show ?thesis using h1 h2 h3 by (simp add: alice_world_def)
qed

text \<open>
  C9. \<^verbatim>\<open>convertToUserProfile\<close> is a function of the record alone. It puts the id of
  the record under the subject identifier and the permissions of the record into
  the permissions of the claims, so that the assignment of the permissions that
  \<^verbatim>\<open>login\<close> makes after it changes nothing.
\<close>

theorem convertToUserProfile_copies:
  "securityId (UserService_convertToUserProfile stored) = subject_of (user_id stored) \<and>
   profile_permissions (UserService_convertToUserProfile stored) = permissions stored \<and>
   (UserService_convertToUserProfile stored)\<lparr>profile_permissions := permissions stored\<rparr> =
     UserService_convertToUserProfile stored"
  by (simp add: UserService_convertToUserProfile_def)

theorem convertToUserProfile_copies_witness:
  "securityId (UserService_convertToUserProfile alice) = JNum 1 \<and>
   profile_permissions (UserService_convertToUserProfile alice) = [AuthFeatures, GetBlogs]"
  using convertToUserProfile_copies [of alice]
  by (simp add: alice_def subject_of_def)

text \<open>
  C10. When \<^verbatim>\<open>verifyCredentials\<close> fails, the login fails with the same error and
  \<^verbatim>\<open>verifyCredentials\<close> is the only call it has made: the token service is not
  called. When a login returns a token, \<^verbatim>\<open>verifyCredentials\<close> has returned a record
  for the credentials, and the token is the one generated for the profile of that
  record.
\<close>

theorem login_requires_verified_credentials:
  "(verifyCredentials ctl (users w) credentials = Inl e \<longrightarrow>
      login ctl credentials w = (Inl e, w\<lparr>calls := calls w @ [CallVerifyCredentials]\<rparr>)) \<and>
   (login ctl credentials w = (Inr jwt, w') \<longrightarrow>
      (\<exists>user. verifyCredentials ctl (users w) credentials = Inr user \<and>
              generateToken ctl
                ((convertToUserProfile ctl user)\<lparr>profile_permissions := permissions user\<rparr>) =
                Inr jwt))"
  by (auto simp add: login_def record_call_def Let_def split: sum.splits)

theorem login_requires_verified_credentials_witness:
  "verifyCredentials example_controller (users alice_world) wrong_password_login =
     Inl InvalidCredentials \<and>
   login example_controller wrong_password_login alice_world =
     (Inl InvalidCredentials, \<lparr>users = [alice], nextId = 2, calls = [CallVerifyCredentials]\<rparr>) \<and>
   login example_controller alice_login alice_world =
     (Inr alice_token,
      \<lparr>users = [alice], nextId = 2,
       calls = [CallVerifyCredentials, CallConvertToUserProfile, CallGenerateToken]\<rparr>) \<and>
   (\<exists>user. verifyCredentials example_controller (users alice_world) alice_login = Inr user)"
proof -
  have h1: "verifyCredentials example_controller (users alice_world) wrong_password_login =
     Inl InvalidCredentials"
    by (rule wrong_password_eval)
  have h2: "login example_controller alice_login alice_world =
     (Inr alice_token,
      \<lparr>users = [alice], nextId = 2,
       calls = [CallVerifyCredentials, CallConvertToUserProfile, CallGenerateToken]\<rparr>)"
    by (rule alice_login_eval)
  from login_requires_verified_credentials
         [where ctl = example_controller and w = alice_world
            and credentials = wrong_password_login and e = InvalidCredentials] h1
  have a: "login example_controller wrong_password_login alice_world =
     (Inl InvalidCredentials, \<lparr>users = [alice], nextId = 2, calls = [CallVerifyCredentials]\<rparr>)"
    by (simp add: alice_world_def)
  from login_requires_verified_credentials
         [where ctl = example_controller and w = alice_world
            and credentials = alice_login and jwt = alice_token] h2
  have b: "\<exists>user. verifyCredentials example_controller (users alice_world) alice_login = Inr user"
    by blast
  from h1 h2 a b show ?thesis by simp
qed

section \<open>The current user\<close>

text \<open>
  C8, as the code has it. When the reference of the current user points to the claims
  \<open>p\<close>, \<^verbatim>\<open>me\<close> returns that same reference, and the object it points to then has the
  former subject identifier of \<open>p\<close> under the id and the empty string under the
  security id: the claims object itself is updated, and no other object is touched.
\<close>

theorem me_assigns_in_place:
  "h currentUser = Some p \<Longrightarrow>
     me currentUser h =
       (Inr currentUser,
        h(currentUser \<mapsto> p\<lparr>profile_id := securityId p, securityId := JStr []\<rparr>))"
  by (simp add: me_def Let_def)

theorem me_assigns_in_place_witness:
  "alice_heap 0 = Some alice_profile \<and>
   me 0 alice_heap =
     (Inr 0,
      alice_heap(0 \<mapsto> \<lparr>securityId = JStr [], profile_id = JNum 1,
                         profile_permissions = [AuthFeatures, GetBlogs]\<rparr>))"
proof -
  have h: "alice_heap 0 = Some alice_profile" by (simp add: alice_heap_def)
  from me_assigns_in_place
         [where h = alice_heap and currentUser = 0 and p = alice_profile, OF h] h
  show ?thesis by (simp add: alice_profile_def)
qed

text \<open>
  C8, as the claim has it, fails: on the heap that holds the claims of the example
  under reference 0, \<^verbatim>\<open>me\<close> returns reference 0 itself, and the object under it is
  no longer the one that was passed.
\<close>

theorem me_fresh_value_counterexample:
  "fst (me 0 alice_heap) = Inr 0 \<and> snd (me 0 alice_heap) 0 \<noteq> alice_heap 0"
  by (simp add: me_def alice_heap_def alice_profile_def)

end
